theory Spec2Isabelle
  imports Complex_Main "HOL-Library.Sublist"
begin

section \<open>The Ollama handler: context sizing, model-info cache, message
  normalisation and the streaming loop\<close>

text \<open>
  A shallow embedding of \<^verbatim>\<open>src/handlers/OllamaHandler.ts\<close>.

  Numbers. The numeric arguments of the handler are string lengths and context-window
  sizes, that is integers, and are modelled as \<^typ>\<open>int\<close>. The two constants that are
  not integers, \<^verbatim>\<open>2.5\<close> and \<^verbatim>\<open>1.2\<close>, are modelled as the rationals
  \<open>5/2\<close> and \<open>6/5\<close>, and \<^verbatim>\<open>Math.ceil\<close> as the ceiling of the exact quotient or
  product. For an integer operand \<open>n\<close> the exact value of \<open>n / 2.5\<close> or \<open>n * 1.2\<close> is
  either an integer, which the double operation then returns exactly (the double
  nearest to \<open>1.2\<close> is off by less than half a unit in the last place), or at least
  \<open>1/5\<close> away from an integer, so the rounding of an IEEE double does not move the
  ceiling for any length a string can have.

  Strings are \<^typ>\<open>string\<close>; \<^verbatim>\<open>.length\<close> is \<^const>\<open>length\<close>. A value that may be
  \<^verbatim>\<open>undefined\<close> is an \<^typ>\<open>'a option\<close>. A \<^verbatim>\<open>throw\<close> is the \<^const>\<open>Inl\<close> branch of a
  sum. The \<^verbatim>\<open>logger\<close> calls have no effect on any value and are left out.
\<close>

subsection \<open>Errors\<close>

datatype error =
    Error string    \<comment> \<open>\<^verbatim>\<open>new Error(message)\<close>, also what the backend client throws\<close>
  | TypeError       \<comment> \<open>thrown by the runtime, e.g. \<^verbatim>\<open>Object.entries(undefined)\<close>\<close>

subsection \<open>Constants and the model-info record\<close>

record ModelInfo =
  contextLength :: int
  lastContextLength :: int

definition SYMBOLS_PER_TOKEN :: rat where
  "SYMBOLS_PER_TOKEN = 2.5"

definition DEFAULT_CONTEXT_LENGTH :: int where
  "DEFAULT_CONTEXT_LENGTH = 2048"

definition EMBEDDING_CONTEXT_LENGTH :: int where
  "EMBEDDING_CONTEXT_LENGTH = 2048"

definition CONTEXT_BUFFER_MULTIPLIER :: rat where
  "CONTEXT_BUFFER_MULTIPLIER = 1.2"

subsection \<open>optimizeContext\<close>

record context_decision =
  num_ctx :: "int option"
  shouldUpdate :: bool

definition optimizeContext :: "int \<Rightarrow> int \<Rightarrow> int \<Rightarrow> int \<Rightarrow> context_decision" where
  "optimizeContext inputLength lastContextLength' defaultContextLength limit =
     (let estimatedTokens = \<lceil>of_int inputLength / SYMBOLS_PER_TOKEN\<rceil> in
      if estimatedTokens \<le> lastContextLength' then
        \<lparr> num_ctx = (if lastContextLength' > defaultContextLength
                     then Some lastContextLength' else None),
          shouldUpdate = False \<rparr>
      else
        let targetLength =
              min \<lceil>of_int (max estimatedTokens defaultContextLength) * CONTEXT_BUFFER_MULTIPLIER\<rceil>
                  limit;
            shouldUpdate' = targetLength > lastContextLength'
        in \<lparr> num_ctx = Some targetLength, shouldUpdate = shouldUpdate' \<rparr>)"

subsection \<open>The provider, the cache key and the backend\<close>

record IAIProvider =
  url :: "string option"
  model :: "string option"

text \<open>A template literal renders \<^verbatim>\<open>undefined\<close> as the text \<^verbatim>\<open>undefined\<close>.\<close>

definition template_text :: "string option \<Rightarrow> string" where
  "template_text v = (case v of None \<Rightarrow> ''undefined'' | Some s \<Rightarrow> s)"

definition cacheKey :: "IAIProvider \<Rightarrow> string \<Rightarrow> string" where
  "cacheKey provider modelName = template_text (url provider) @ ''_'' @ modelName"

text \<open>\<^verbatim>\<open>params.provider.model || ""\<close>: an absent or empty model name is the empty string.\<close>

definition model_or_empty :: "IAIProvider \<Rightarrow> string" where
  "model_or_empty provider = (case model provider of None \<Rightarrow> '''' | Some m \<Rightarrow> m)"

text \<open>
  A value of \<^verbatim>\<open>response.model_info\<close>: a number (context lengths are integers), a
  string, or anything else.
\<close>

datatype json = JNumber int | JString string | JOther

record ShowResponse =
  model_info :: "(string \<times> json) list option"

datatype embed_input = Single string | Many "string list"

datatype embed_request = EmbedRequest string embed_input "int option"
  \<comment> \<open>\<^verbatim>\<open>{ model, input, options: { num_ctx } }\<close>\<close>

type_synonym embedding = "rat list"

text \<open>
  The backend client is a parameter: what \<^verbatim>\<open>ollama.show\<close> and \<^verbatim>\<open>ollama.embed\<close>
  answer to a request, \<^const>\<open>Inl\<close> when the call throws. An embed response without
  an \<^verbatim>\<open>embeddings\<close> field is \<^const>\<open>None\<close>.
\<close>

record backend =
  ollama_show :: "string \<Rightarrow> error + ShowResponse"
  ollama_embed :: "embed_request \<Rightarrow> error + embedding list option"

datatype backend_call = ShowCall string | EmbedCall embed_request

text \<open>
  The handler's state: the cache of the class, and a ghost log of the requests issued to
  the backend, in order.
\<close>

record handler_state =
  modelInfoCache :: "string \<rightharpoonup> ModelInfo"
  calls :: "backend_call list"

subsection \<open>getCachedModelInfo and setModelInfoLastContextLength\<close>

definition getDefaultModelInfo :: ModelInfo where
  "getDefaultModelInfo = \<lparr> contextLength = 0, lastContextLength = DEFAULT_CONTEXT_LENGTH \<rparr>"

definition endsWith :: "string \<Rightarrow> string \<Rightarrow> bool" where
  "endsWith s t = (length t \<le> length s \<and> drop (length s - length t) s = t)"

definition isContextLengthEntry :: "string \<times> json \<Rightarrow> bool" where
  "isContextLengthEntry e =
     (case e of (key, v) \<Rightarrow>
        (endsWith key ''.context_length'' \<or> key = ''num_ctx'') \<and>
        (case v of JNumber n \<Rightarrow> n > 0 | _ \<Rightarrow> False))"

text \<open>The body of the \<^verbatim>\<open>try\<close> block, up to the cache update.\<close>

definition fetchModelInfo :: "backend \<Rightarrow> string \<Rightarrow> error + ModelInfo" where
  "fetchModelInfo b modelName =
     (case ollama_show b modelName of
        Inl e \<Rightarrow> Inl e
      | Inr response \<Rightarrow>
          (case model_info response of
             None \<Rightarrow> Inl TypeError
           | Some entries \<Rightarrow>
               (let modelInfo = getDefaultModelInfo in
                case find isContextLengthEntry entries of
                  Some (key, JNumber n) \<Rightarrow> Inr (modelInfo\<lparr>contextLength := n\<rparr>)
                | _ \<Rightarrow> Inr modelInfo)))"

definition getCachedModelInfo ::
  "backend \<Rightarrow> IAIProvider \<Rightarrow> string \<Rightarrow> handler_state \<Rightarrow> ModelInfo \<times> handler_state" where
  "getCachedModelInfo b provider modelName st =
     (let key = cacheKey provider modelName in
      case modelInfoCache st key of
        Some cached \<Rightarrow> (cached, st)
      | None \<Rightarrow>
          (let st' = st\<lparr>calls := calls st @ [ShowCall modelName]\<rparr> in
           case fetchModelInfo b modelName of
             Inr modelInfo \<Rightarrow>
               (modelInfo, st'\<lparr>modelInfoCache := (modelInfoCache st')(key \<mapsto> modelInfo)\<rparr>)
           | Inl e \<Rightarrow> (getDefaultModelInfo, st')))"

text \<open>\<^verbatim>\<open>num_ctx || modelInfo.lastContextLength\<close>: an absent or zero size is falsy.\<close>

definition setModelInfoLastContextLength ::
  "IAIProvider \<Rightarrow> string \<Rightarrow> int option \<Rightarrow> handler_state \<Rightarrow> handler_state" where
  "setModelInfoLastContextLength provider modelName num_ctx' st =
     (let key = cacheKey provider modelName in
      case modelInfoCache st key of
        None \<Rightarrow> st
      | Some modelInfo \<Rightarrow>
          st\<lparr>modelInfoCache := (modelInfoCache st)(key \<mapsto>
               modelInfo\<lparr>lastContextLength :=
                 (case num_ctx' of
                    None \<Rightarrow> lastContextLength modelInfo
                  | Some n \<Rightarrow> if n = 0 then lastContextLength modelInfo else n)\<rparr>)\<rparr>)"

subsection \<open>embed\<close>

record IAIProvidersEmbedParams =
  embed_provider :: IAIProvider
  embed_input :: "embed_input option"
  embed_text :: "embed_input option"   \<comment> \<open>the legacy field \<^verbatim>\<open>(params as any).text\<close>\<close>

text \<open>
  \<^verbatim>\<open>Math.max(...lengths)\<close> of an array, \<^verbatim>\<open>.length\<close> of a string. \<^verbatim>\<open>Math.max()\<close>
  of no argument is \<^verbatim>\<open>-Infinity\<close>, here \<^const>\<open>None\<close>.
\<close>

definition maxInputLength :: "embed_input \<Rightarrow> int option" where
  "maxInputLength inputText =
     (case inputText of
        Single s \<Rightarrow> Some (int (length s))
      | Many texts \<Rightarrow>
          (case texts of
             [] \<Rightarrow> None
           | t # ts \<Rightarrow> Some (fold (\<lambda>s m. max m (int (length s))) ts (int (length t)))))"

text \<open>
  The call of \<^const>\<open>optimizeContext\<close> in \<^verbatim>\<open>embed\<close>. For the length \<^verbatim>\<open>-Infinity\<close>
  the estimate \<^verbatim>\<open>Math.ceil(-Infinity / 2.5)\<close> is \<^verbatim>\<open>-Infinity\<close>, which is at most
  any \<^verbatim>\<open>lastContextLength\<close>: the first branch of \<^const>\<open>optimizeContext\<close>.
\<close>

definition embedContext :: "int option \<Rightarrow> ModelInfo \<Rightarrow> context_decision" where
  "embedContext len modelInfo =
     (let last = (if lastContextLength modelInfo = 0 then EMBEDDING_CONTEXT_LENGTH
                  else lastContextLength modelInfo) in
      case len of
        Some n \<Rightarrow> optimizeContext n last EMBEDDING_CONTEXT_LENGTH (contextLength modelInfo)
      | None \<Rightarrow>
          \<lparr> num_ctx = (if last > EMBEDDING_CONTEXT_LENGTH then Some last else None),
            shouldUpdate = False \<rparr>)"

text \<open>\<^verbatim>\<open>!inputText\<close>: \<^verbatim>\<open>undefined\<close> and the empty string are falsy, every array is truthy.\<close>

definition falsy_input :: "embed_input option \<Rightarrow> bool" where
  "falsy_input inputText =
     (case inputText of None \<Rightarrow> True | Some (Single s) \<Rightarrow> s = '''' | Some (Many ts) \<Rightarrow> False)"

definition embed ::
  "backend \<Rightarrow> IAIProvidersEmbedParams \<Rightarrow> handler_state \<Rightarrow>
   (error + embedding list) \<times> handler_state" where
  "embed b params st =
     (let inputText = (case embed_input params of Some i \<Rightarrow> Some i | None \<Rightarrow> embed_text params) in
      if falsy_input inputText then
        (Inl (Error ''Either input or text parameter must be provided''), st)
      else
        case inputText of
          None \<Rightarrow> (Inl (Error ''Either input or text parameter must be provided''), st)
            \<comment> \<open>not reached: an absent input is falsy\<close>
        | Some inp \<Rightarrow>
           (let provider = embed_provider params;
                modelName = model_or_empty provider;
                (modelInfo, st1) = getCachedModelInfo b provider modelName st;
                decision = embedContext (maxInputLength inp) modelInfo;
                st2 = (if shouldUpdate decision
                       then setModelInfoLastContextLength provider modelName (num_ctx decision) st1
                       else st1);
                request = EmbedRequest modelName inp (num_ctx decision);
                st3 = st2\<lparr>calls := calls st2 @ [EmbedCall request]\<rparr>
            in case ollama_embed b request of
                 Inl e \<Rightarrow> (Inl e, st3)
               | Inr None \<Rightarrow> (Inl (Error ''No embeddings in response''), st3)
               | Inr (Some embeddings) \<Rightarrow> (Inr embeddings, st3)))"

subsection \<open>execute: building the chat messages\<close>

datatype content_block =
    TextBlock string                 \<comment> \<open>\<^verbatim>\<open>{ type: 'text', text }\<close>\<close>
  | ImageUrlBlock "string option"    \<comment> \<open>\<^verbatim>\<open>{ type: 'image_url', image_url }\<close>, with \<^verbatim>\<open>image_url?.url\<close>\<close>

datatype message_content = Plain string | Blocks "content_block list"

record IChatMessage =
  msg_role :: string
  msg_content :: message_content
  msg_images :: "string list option"

record IAIProvidersExecuteParams =
  params_messages :: "IChatMessage list option"
  params_prompt :: "string option"
  params_systemPrompt :: "string option"
  params_images :: "string list option"

text \<open>An element of \<^verbatim>\<open>chatMessages\<close>.\<close>

record ChatMessage =
  role :: string
  content :: string
  images :: "string list option"

fun join :: "string \<Rightarrow> string list \<Rightarrow> string" where
  "join sep [] = ''''"
| "join sep [x] = x"
| "join sep (x # y # ys) = x @ sep @ join sep (y # ys)"

fun blockText :: "content_block \<Rightarrow> string list" where
  "blockText (TextBlock t) = [t]"
| "blockText (ImageUrlBlock u) = []"

text \<open>An image block is collected when \<^verbatim>\<open>block.image_url?.url\<close> is truthy.\<close>

fun blockImage :: "content_block \<Rightarrow> string list" where
  "blockImage (TextBlock t) = []"
| "blockImage (ImageUrlBlock None) = []"
| "blockImage (ImageUrlBlock (Some u)) = (if u = '''' then [] else [u])"

text \<open>\<^verbatim>\<open>xs?.length\<close> is truthy for a present, non-empty array.\<close>

definition nonEmptyArray :: "'a list option \<Rightarrow> 'a list" where
  "nonEmptyArray xs = (case xs of None \<Rightarrow> [] | Some ys \<Rightarrow> ys)"

text \<open>
  One round of \<^verbatim>\<open>params.messages.forEach\<close>, on the pair
  \<^verbatim>\<open>(chatMessages, extractedImages)\<close>.
\<close>

definition pushMessage ::
  "ChatMessage list \<times> string list \<Rightarrow> IChatMessage \<Rightarrow> ChatMessage list \<times> string list" where
  "pushMessage acc msg =
     (case acc of (chatMessages, extractedImages) \<Rightarrow>
        (case msg_content msg of
           Plain s \<Rightarrow>
             (chatMessages @ [\<lparr> role = msg_role msg, content = s, images = None \<rparr>],
              extractedImages @ nonEmptyArray (msg_images msg))
         | Blocks bs \<Rightarrow>
             (let textContent = join [CHR 0x0A] (concat (map blockText bs)) in
              (chatMessages @ [\<lparr> role = msg_role msg, content = textContent, images = None \<rparr>],
               extractedImages @ concat (map blockImage bs) @ nonEmptyArray (msg_images msg)))))"

definition collectMessages ::
  "IAIProvidersExecuteParams \<Rightarrow> error + ChatMessage list \<times> string list" where
  "collectMessages params =
     (case params_messages params of
        Some msgs \<Rightarrow> Inr (foldl pushMessage ([], []) msgs)
      | None \<Rightarrow>
          (case params_prompt params of
             Some prompt \<Rightarrow>
               Inr ((case params_systemPrompt params of
                       None \<Rightarrow> []
                     | Some sys \<Rightarrow>
                         if sys = '''' then []
                         else [\<lparr> role = ''system'', content = sys, images = None \<rparr>])
                    @ [\<lparr> role = ''user'', content = prompt, images = None \<rparr>],
                    nonEmptyArray (params_images params))
           | None \<Rightarrow> Inl (Error ''Either messages or prompt must be provided'')))"

text \<open>
  \<^verbatim>\<open>image.replace(/^data:image\/(.*?);base64,/, "")\<close>. The lazy group takes the
  fewest characters, none of them a line terminator, after which \<^verbatim>\<open>;base64,\<close>
  follows; without a match the string is returned as it is. \<open>afterBase64\<close> is
  the text that follows the match, tried at every length of the group in turn. The line
  terminators of the 8-bit alphabet are line feed and carriage return.
\<close>

definition lineTerminator :: "char \<Rightarrow> bool" where
  "lineTerminator c = (c = CHR 0x0A \<or> c = CHR 0x0D)"

fun afterBase64 :: "string \<Rightarrow> string option" where
  "afterBase64 [] = None"
| "afterBase64 (c # cs) =
     (if prefix '';base64,'' (c # cs) then Some (drop 8 (c # cs))
      else if lineTerminator c then None
      else afterBase64 cs)"

definition stripDataUrl :: "string \<Rightarrow> string" where
  "stripDataUrl img =
     (if prefix ''data:image/'' img then
        (case afterBase64 (drop 11 img) of
           Some payload \<Rightarrow> payload
         | None \<Rightarrow> img)
      else img)"

definition processImages :: "string list \<Rightarrow> string list option" where
  "processImages extractedImages =
     (if length extractedImages > 0 then Some (map stripDataUrl extractedImages) else None)"

text \<open>
  \<^verbatim>\<open>Array.prototype.lastIndexOf\<close>: the scan from the last index down, \<open>-1\<close> when
  nothing is found. \<open>k\<close> counts the elements not yet looked at.
\<close>

fun lastIndexFrom :: "'a list \<Rightarrow> 'a \<Rightarrow> nat \<Rightarrow> int" where
  "lastIndexFrom xs x 0 = - 1"
| "lastIndexFrom xs x (Suc k) = (if xs ! k = x then int k else lastIndexFrom xs x k)"

definition lastIndexOf :: "'a list \<Rightarrow> 'a \<Rightarrow> int" where
  "lastIndexOf xs x = lastIndexFrom xs x (length xs)"

text \<open>The block guarded by \<^verbatim>\<open>if (processedImages?.length)\<close>.\<close>

definition attachImages :: "ChatMessage list \<Rightarrow> string list \<Rightarrow> ChatMessage list" where
  "attachImages chatMessages processedImages =
     (let lastUserMessageIndex = lastIndexOf (map role chatMessages) ''user'' in
      if lastUserMessageIndex \<noteq> - 1 then
        chatMessages[nat lastUserMessageIndex :=
          (chatMessages ! nat lastUserMessageIndex)\<lparr>images := Some processedImages\<rparr>]
      else if length chatMessages > 0 then
        chatMessages[length chatMessages - 1 :=
          (chatMessages ! (length chatMessages - 1))\<lparr>images := Some processedImages\<rparr>]
      else
        chatMessages @ [\<lparr> role = ''user'', content = '''', images = Some processedImages \<rparr>])"

text \<open>
  The \<^verbatim>\<open>messages\<close> argument of \<^verbatim>\<open>ollama.chat\<close>, or the error thrown before the
  call. The request options do not enter the messages and are left out here.
\<close>

definition buildChatMessages :: "IAIProvidersExecuteParams \<Rightarrow> error + ChatMessage list" where
  "buildChatMessages params =
     (case collectMessages params of
        Inl e \<Rightarrow> Inl e
      | Inr (chatMessages, extractedImages) \<Rightarrow>
          (case processImages extractedImages of
             None \<Rightarrow> Inr chatMessages
           | Some processedImages \<Rightarrow>
               if length processedImages > 0
               then Inr (attachImages chatMessages processedImages)
               else Inr chatMessages))"

text \<open>
  The call of \<open>optimizeContext\<close> in \<^verbatim>\<open>execute\<close>, made when the request carries
  no image: \<^verbatim>\<open>modelInfo?.lastContextLength || DEFAULT_CONTEXT_LENGTH\<close> and
  \<^verbatim>\<open>modelInfo?.contextLength || DEFAULT_CONTEXT_LENGTH\<close> replace an absent or zero
  value by the default.
\<close>

definition executeContext :: "int \<Rightarrow> ModelInfo option \<Rightarrow> context_decision" where
  "executeContext inputLength modelInfo =
     optimizeContext inputLength
       (case modelInfo of
          None \<Rightarrow> DEFAULT_CONTEXT_LENGTH
        | Some mi \<Rightarrow> if lastContextLength mi = 0 then DEFAULT_CONTEXT_LENGTH
                     else lastContextLength mi)
       DEFAULT_CONTEXT_LENGTH
       (case modelInfo of
          None \<Rightarrow> DEFAULT_CONTEXT_LENGTH
        | Some mi \<Rightarrow> if contextLength mi = 0 then DEFAULT_CONTEXT_LENGTH
                     else contextLength mi)"

subsection \<open>execute: the streaming loop and the handle\<close>

record ChatResponseMessage =
  response_content :: "string option"

record ExtendedChatResponse =
  message :: "ChatResponseMessage option"
  total_tokens :: "int option"

text \<open>\<^verbatim>\<open>part.message?.content || ''\<close>\<close>

definition responseText :: "ExtendedChatResponse \<Rightarrow> string" where
  "responseText part =
     (case message part of
        None \<Rightarrow> ''''
      | Some m \<Rightarrow> (case response_content m of None \<Rightarrow> '''' | Some c \<Rightarrow> c))"

text \<open>
  Subscribers are opaque callbacks, named by numbers and assumed to return normally; an
  invocation is logged as the callback with the arguments it was given.
\<close>

type_synonym callback = nat

datatype event =
    DataEvent string string    \<comment> \<open>\<^verbatim>\<open>handler(responseText, fullText)\<close>\<close>
  | EndEvent string            \<comment> \<open>\<^verbatim>\<open>handler(fullText)\<close>\<close>
  | ErrorEvent error           \<comment> \<open>\<^verbatim>\<open>handler(error)\<close>\<close>


text \<open>
  Where the asynchronous task stands: reading (before and between the chunks of the
  stream), closing (it has left the loop by \<^verbatim>\<open>break\<close> and awaits the iterator's
  \<^verbatim>\<open>return()\<close>, still inside the \<^verbatim>\<open>try\<close>), or settled (it has left the
  \<^verbatim>\<open>try\<close> statement).
\<close>

datatype task_phase = Reading | Closing | Settled

text \<open>The variables the asynchronous task and the returned handle share.\<close>

record execution =
  isAborted :: bool
  fullText :: string
  data_handlers :: "callback list"
  end_handlers :: "callback list"
  error_handlers :: "callback list"
  phase :: task_phase
  invocations :: "(callback \<times> event) list"

text \<open>
  The task, once the chat request is prepared:
  \<^verbatim>\<open>
  try {
      response = await ollama.chat(...);
      for await (const part of response) {
          if (isAborted) { break; }
          const responseText = part.message?.content || '';
          if (responseText) {
              fullText += responseText;
              handlers.data.forEach(handler => handler(responseText, fullText));
          }
      }
      if (!isAborted) { handlers.end.forEach(handler => handler(fullText)); }
  } catch (error) {
      handlers.error.forEach(handler => handler(error as Error));
  }
  \<close>
  The task runs between its \<^verbatim>\<open>await\<close>s without interruption, and the caller acts
  on the handle in between. So an execution is a sequence of actions, each a call of one
  of the four methods of the handle, or the backend's answer at an \<^verbatim>\<open>await\<close> of
  the task: the next chunk of the stream, its end, or a failure (the chat call or the
  iteration throws, or the messages could not be built). A \<^verbatim>\<open>break\<close> closes the
  iterator: the task awaits its \<^verbatim>\<open>return()\<close>, whose answer is the end of the stream
  or a failure, and reads no chunk any more. A sequence without an end of stream or a
  failure is an execution still waiting for the backend.
\<close>

datatype action =
    OnData callback
  | OnEnd callback
  | OnError callback
  | Abort
  | Chunk ExtendedChatResponse
  | Exhausted
  | Failure error

definition start :: execution where
  "start = \<lparr> isAborted = False, fullText = '''', data_handlers = [], end_handlers = [],
             error_handlers = [], phase = Reading, invocations = [] \<rparr>"

definition notify :: "callback list \<Rightarrow> event \<Rightarrow> execution \<Rightarrow> execution" where
  "notify hs ev s = s\<lparr>invocations := invocations s @ map (\<lambda>h. (h, ev)) hs\<rparr>"

fun step :: "execution \<Rightarrow> action \<Rightarrow> execution" where
  "step s (OnData cb) = s\<lparr>data_handlers := data_handlers s @ [cb]\<rparr>"
| "step s (OnEnd cb) = s\<lparr>end_handlers := end_handlers s @ [cb]\<rparr>"
| "step s (OnError cb) = s\<lparr>error_handlers := error_handlers s @ [cb]\<rparr>"
| "step s Abort = s\<lparr>isAborted := True\<rparr>"
| "step s (Chunk part) =
     (if phase s \<noteq> Reading then s
      else if isAborted s then s\<lparr>phase := Closing\<rparr>
      else if responseText part \<noteq> '''' then
        (let s' = s\<lparr>fullText := fullText s @ responseText part\<rparr>
         in notify (data_handlers s') (DataEvent (responseText part) (fullText s')) s')
      else s)"
| "step s Exhausted =
     (if phase s = Settled then s
      else if \<not> isAborted s then (notify (end_handlers s) (EndEvent (fullText s)) s)\<lparr>phase := Settled\<rparr>
      else s\<lparr>phase := Settled\<rparr>)"
| "step s (Failure e) =
     (if phase s = Settled then s
      else (notify (error_handlers s) (ErrorEvent e) s)\<lparr>phase := Settled\<rparr>)"

definition run :: "action list \<Rightarrow> execution \<Rightarrow> execution" where
  "run as s = foldl step s as"

definition isSubscription :: "action \<Rightarrow> bool" where
  "isSubscription a =
     (case a of OnData cb \<Rightarrow> True | OnEnd cb \<Rightarrow> True | OnError cb \<Rightarrow> True | _ \<Rightarrow> False)"


fun dataSubscribers :: "action list \<Rightarrow> callback list" where
  "dataSubscribers [] = []"
| "dataSubscribers (OnData cb # as) = cb # dataSubscribers as"
| "dataSubscribers (a # as) = dataSubscribers as"

fun endSubscribers :: "action list \<Rightarrow> callback list" where
  "endSubscribers [] = []"
| "endSubscribers (OnEnd cb # as) = cb # endSubscribers as"
| "endSubscribers (a # as) = endSubscribers as"

fun errorSubscribers :: "action list \<Rightarrow> callback list" where
  "errorSubscribers [] = []"
| "errorSubscribers (OnError cb # as) = cb # errorSubscribers as"
| "errorSubscribers (a # as) = errorSubscribers as"

subsection \<open>Example inputs\<close>

text \<open>
  A backend that refuses every connection; a backend that answers every introspection
  with an empty \<open>model_info\<close> and every embed request with an empty list of vectors; a
  provider on the local endpoint; the state of a new handler; a chunk with a text and a
  chunk without message.
\<close>

definition refusingBackend :: backend where
  "refusingBackend =
     \<lparr> ollama_show = (\<lambda>m. Inl (Error ''connection refused'')),
       ollama_embed = (\<lambda>r. Inl (Error ''connection refused'')) \<rparr>"

definition plainBackend :: backend where
  "plainBackend =
     \<lparr> ollama_show = (\<lambda>m. Inr \<lparr> model_info = Some [] \<rparr>),
       ollama_embed = (\<lambda>r. Inr (Some [])) \<rparr>"

definition localProvider :: "string \<Rightarrow> IAIProvider" where
  "localProvider m = \<lparr> url = Some ''http://localhost:11434'', model = Some m \<rparr>"

definition freshState :: handler_state where
  "freshState = \<lparr> modelInfoCache = Map.empty, calls = [] \<rparr>"

definition textChunk :: "string \<Rightarrow> ExtendedChatResponse" where
  "textChunk t = \<lparr> message = Some \<lparr> response_content = Some t \<rparr>, total_tokens = None \<rparr>"

definition bareChunk :: ExtendedChatResponse where
  "bareChunk = \<lparr> message = None, total_tokens = None \<rparr>"

section \<open>Properties\<close>

subsection \<open>The context optimizer\<close>

lemmas optimizer_defs = optimizeContext_def SYMBOLS_PER_TOKEN_def CONTEXT_BUFFER_MULTIPLIER_def

lemmas embed_defs = embed_def falsy_input_def model_or_empty_def getCachedModelInfo_def
  fetchModelInfo_def getDefaultModelInfo_def cacheKey_def template_text_def embedContext_def
  maxInputLength_def DEFAULT_CONTEXT_LENGTH_def EMBEDDING_CONTEXT_LENGTH_def Let_def

lemmas fixture_defs = refusingBackend_def plainBackend_def localProvider_def freshState_def

text \<open>The two ceilings in integer arithmetic.\<close>

lemma ceiling_fifths: "\<lceil>(of_int k :: rat) / 5\<rceil> = (k + 4) div 5"
proof -
  have "\<lceil>(of_int k :: rat) / of_int 5\<rceil> = - (- k div 5)"
    by (rule ceiling_divide_eq_div)
  also have "\<dots> = (k + 4) div 5" by presburger
  finally show ?thesis by simp
qed

lemma estimate_closed_form:
  "\<lceil>(of_int n :: rat) / SYMBOLS_PER_TOKEN\<rceil> = (2 * n + 4) div 5"
proof -
  have "(of_int n :: rat) / SYMBOLS_PER_TOKEN = of_int (2 * n) / 5"
    by (simp add: SYMBOLS_PER_TOKEN_def)
  then show ?thesis by (simp only: ceiling_fifths)
qed

lemma buffer_closed_form:
  "\<lceil>(of_int m :: rat) * CONTEXT_BUFFER_MULTIPLIER\<rceil> = (6 * m + 4) div 5"
proof -
  have "(of_int m :: rat) * CONTEXT_BUFFER_MULTIPLIER = of_int (6 * m) / 5"
    by (simp add: CONTEXT_BUFFER_MULTIPLIER_def)
  then show ?thesis by (simp only: ceiling_fifths)
qed

text \<open>Whenever the window grows, the size returned is at most the limit, whatever it is.\<close>

lemma optimizeContext_never_exceeds_limit:
  assumes "num_ctx (optimizeContext inputLength lastLen dflt limit) = Some t"
    and "\<lceil>(of_int inputLength :: rat) / 2.5\<rceil> > lastLen"
  shows "t \<le> limit"
  using assms by (auto simp: optimizer_defs Let_def)

text \<open>
  In \<open>execute\<close> the limit is never \<open>0\<close>: for a model of unknown context length the
  default takes its place, and the same input of 6000 characters is given the size 2048.
\<close>

lemma executeContext_unknown_limit:
  "executeContext 6000 (Some getDefaultModelInfo)
     = \<lparr> num_ctx = Some 2048, shouldUpdate = False \<rparr>"
  by (simp add: executeContext_def getDefaultModelInfo_def DEFAULT_CONTEXT_LENGTH_def
      optimizer_defs)

text \<open>
  C1. With an estimate above \<open>lastContextLength\<close> and the limit \<open>0\<close> (the context
  length of a model is \<open>0\<close> when it is unknown), the specification asks for the uncapped target
  \<open>ceil(max(estimate, defaultContextLength) * 1.2)\<close>. The code takes the minimum with
  the limit whatever its value: for an input of 6000 characters, \<open>lastContextLength\<close>
  and \<open>defaultContextLength\<close> 2048 and limit \<open>0\<close>, \<open>optimizeContext\<close> returns the
  size \<open>0\<close> and \<open>shouldUpdate = false\<close>, where the uncapped target is 2880.
  \<open>embed\<close> passes \<open>modelInfo.contextLength\<close> as the limit unguarded, so for a model
  whose introspection names no context length it sends \<open>num_ctx = 0\<close> to the backend.
\<close>

theorem optimizeContext_zero_limit_collapses:
  "optimizeContext 6000 2048 2048 0 = \<lparr> num_ctx = Some 0, shouldUpdate = False \<rparr>
   \<and> \<lceil>of_int (max \<lceil>(of_int 6000 :: rat) / 2.5\<rceil> 2048) * (1.2 :: rat)\<rceil> = (2880 :: int)
   \<and> calls (snd (embed plainBackend
        \<lparr> embed_provider = localProvider ''nomic'',
          embed_input = Some (Single (replicate 6000 CHR ''x'')), embed_text = None \<rparr>
        freshState))
     = [ShowCall ''nomic'',
        EmbedCall (EmbedRequest ''nomic'' (Single (replicate 6000 CHR ''x'')) (Some 0))]"
  by (simp add: embed_defs optimizer_defs fixture_defs)

text \<open>
  C5. When the estimate \<open>ceil(inputLength / 2.5)\<close> exceeds \<open>lastContextLength\<close> and the
  limit is positive, \<open>optimizeContext\<close> returns the size
  \<open>min(ceil(max(estimate, defaultContextLength) * 1.2), limit)\<close>, and \<open>shouldUpdate\<close>
  is true exactly when that size exceeds \<open>lastContextLength\<close>.
\<close>

theorem optimizeContext_grows:
  assumes "\<lceil>(of_int inputLength :: rat) / 2.5\<rceil> > lastLen" and "0 < limit"
  shows "optimizeContext inputLength lastLen dflt limit =
           \<lparr> num_ctx =
               Some (min \<lceil>of_int (max \<lceil>(of_int inputLength :: rat) / 2.5\<rceil> dflt) * (1.2 :: rat)\<rceil>
                         limit),
             shouldUpdate =
               (min \<lceil>of_int (max \<lceil>(of_int inputLength :: rat) / 2.5\<rceil> dflt) * (1.2 :: rat)\<rceil>
                    limit > lastLen) \<rparr>"
  using assms by (simp add: optimizer_defs Let_def)

text \<open>
  C5, at the input of the specification: \<open>optimize(100000, 2048, 2048, 8192)\<close> is the
  size 8192, to be remembered.
\<close>

theorem optimizeContext_grows_witness:
  "\<lceil>(of_int 100000 :: rat) / 2.5\<rceil> > (2048 :: int) \<and> (0 :: int) < 8192 \<and>
   optimizeContext 100000 2048 2048 8192 = \<lparr> num_ctx = Some 8192, shouldUpdate = True \<rparr>"
  using optimizeContext_grows [of 2048 100000 8192 2048] by simp

text \<open>
  C6. When the estimate \<open>ceil(inputLength / 2.5)\<close> is at most \<open>lastContextLength\<close>,
  \<open>optimizeContext\<close> returns \<open>shouldUpdate = false\<close>, with the size
  \<open>lastContextLength\<close> when that exceeds \<open>defaultContextLength\<close> and no size otherwise.
\<close>

theorem optimizeContext_last_suffices:
  assumes "\<lceil>(of_int inputLength :: rat) / 2.5\<rceil> \<le> lastLen"
  shows "optimizeContext inputLength lastLen dflt limit =
           \<lparr> num_ctx = (if lastLen > dflt then Some lastLen else None), shouldUpdate = False \<rparr>"
  using assms by (simp add: optimizer_defs)

text \<open>
  C6, at the input of the specification: \<open>optimize(10, 2048, 2048, 8192)\<close> is no size,
  nothing to remember.
\<close>

theorem optimizeContext_last_suffices_witness:
  "\<lceil>(of_int 10 :: rat) / 2.5\<rceil> \<le> (2048 :: int) \<and>
   optimizeContext 10 2048 2048 8192 = \<lparr> num_ctx = None, shouldUpdate = False \<rparr>"
  using optimizeContext_last_suffices [of 10 2048 2048 8192] by simp

subsection \<open>The model-info cache\<close>

text \<open>
  C2, as the code has it. When the key is not cached and \<open>ollama.show\<close> throws,
  \<open>getCachedModelInfo\<close> returns the default entry
  \<open>{ contextLength: 0, lastContextLength: 2048 }\<close> and throws nothing; the cache is left
  as it was: the \<open>catch\<close> branch stores no entry.
\<close>

theorem getCachedModelInfo_failure_default:
  assumes "modelInfoCache st (cacheKey provider modelName) = None"
    and "ollama_show b modelName = Inl e"
  shows "getCachedModelInfo b provider modelName st =
           (\<lparr> contextLength = 0, lastContextLength = 2048 \<rparr>,
            st\<lparr>calls := calls st @ [ShowCall modelName]\<rparr>)
         \<and> modelInfoCache (snd (getCachedModelInfo b provider modelName st)) = modelInfoCache st"
  using assms
  by (simp add: getCachedModelInfo_def fetchModelInfo_def getDefaultModelInfo_def
      DEFAULT_CONTEXT_LENGTH_def)

text \<open>C2 at an empty cache and a backend that refuses the connection.\<close>

theorem getCachedModelInfo_failure_default_witness:
  "modelInfoCache freshState (cacheKey (localProvider ''llama3'') ''llama3'') = None
   \<and> ollama_show refusingBackend ''llama3'' = Inl (Error ''connection refused'')
   \<and> getCachedModelInfo refusingBackend (localProvider ''llama3'') ''llama3'' freshState
       = (\<lparr> contextLength = 0, lastContextLength = 2048 \<rparr>,
          \<lparr> modelInfoCache = Map.empty, calls = [ShowCall ''llama3''] \<rparr>)"
  using getCachedModelInfo_failure_default
    [of freshState "localProvider ''llama3''" "''llama3''" refusingBackend
        "Error ''connection refused''"]
  by (simp add: fixture_defs)

text \<open>
  C2 as the specification states it does not hold: after the failed introspection the
  cache holds no entry under the requested key, so it does not hold the default entry
  there.
\<close>

theorem getCachedModelInfo_failure_not_stored:
  "modelInfoCache
     (snd (getCachedModelInfo refusingBackend (localProvider ''llama3'') ''llama3'' freshState))
     (cacheKey (localProvider ''llama3'') ''llama3'')
   = None"
  by (simp add: getCachedModelInfo_def fetchModelInfo_def fixture_defs)

lemma append_sep_inject:
  assumes "c \<notin> set u1" "c \<notin> set u2" "u1 @ c # m1 = u2 @ c # m2"
  shows "u1 = u2 \<and> m1 = m2"
  using assms
proof (induction u1 arbitrary: u2)
  case Nil
  then show ?case by (cases u2) auto
next
  case (Cons a u1)
  then show ?case by (cases u2) auto
qed

lemma append_sep_inject_right:
  assumes "c \<notin> set m1" "c \<notin> set m2" "u1 @ c # m1 = u2 @ c # m2"
  shows "u1 = u2 \<and> m1 = m2"
proof -
  from assms(3) have "rev (u1 @ c # m1) = rev (u2 @ c # m2)" by simp
  then have "rev m1 @ c # rev u1 = rev m2 @ c # rev u2" by simp
  with assms(1,2) have "rev m1 = rev m2 \<and> rev u1 = rev u2"
    by (intro append_sep_inject) simp_all
  then show ?thesis by simp
qed

text \<open>
  C3, as the code has it. The key is the endpoint URL as the template literal renders
  it (the url, or the text \<open>undefined\<close> when the provider has none), an underscore and
  the model name. Two pairs with equal url and equal model name have equal keys. Equal
  keys give equal rendered URLs and equal model names when the two pairs agree on one of
  the two, when neither rendered URL contains an underscore, or when neither model name
  does. For two providers that have a url, the rendered URLs are equal exactly when the
  urls are; a provider without url has the keys of a provider with the url
  \<open>undefined\<close>.
\<close>

theorem cacheKey_injective_without_underscore:
  "(url p1 = url p2 \<and> m1 = m2 \<longrightarrow> cacheKey p1 m1 = cacheKey p2 m2)
   \<and> (template_text (url p1) = template_text (url p2) \<longrightarrow>
        (cacheKey p1 m1 = cacheKey p2 m2 \<longleftrightarrow> m1 = m2))
   \<and> (m1 = m2 \<longrightarrow>
        (cacheKey p1 m1 = cacheKey p2 m2 \<longleftrightarrow> template_text (url p1) = template_text (url p2)))
   \<and> (CHR ''_'' \<notin> set (template_text (url p1)) \<and> CHR ''_'' \<notin> set (template_text (url p2)) \<longrightarrow>
        (cacheKey p1 m1 = cacheKey p2 m2 \<longleftrightarrow>
           template_text (url p1) = template_text (url p2) \<and> m1 = m2))
   \<and> (CHR ''_'' \<notin> set m1 \<and> CHR ''_'' \<notin> set m2 \<longrightarrow>
        (cacheKey p1 m1 = cacheKey p2 m2 \<longleftrightarrow>
           template_text (url p1) = template_text (url p2) \<and> m1 = m2))
   \<and> (url p1 = Some u1 \<and> url p2 = Some u2 \<longrightarrow>
        (template_text (url p1) = template_text (url p2) \<longleftrightarrow> u1 = u2))
   \<and> cacheKey \<lparr> url = None, model = mo \<rparr> m1
       = cacheKey \<lparr> url = Some ''undefined'', model = mo \<rparr> m1"
  using append_sep_inject
          [of "CHR ''_''" "template_text (url p1)" "template_text (url p2)" m1 m2]
    append_sep_inject_right
          [of "CHR ''_''" m1 m2 "template_text (url p1)" "template_text (url p2)"]
  by (auto simp: cacheKey_def template_text_def)

text \<open>
  C3 at two endpoints without an underscore and one model name with one: the keys
  differ.
\<close>

theorem cacheKey_injective_without_underscore_witness:
  "CHR ''_'' \<notin> set (template_text (url \<lparr> url = Some ''http://a:11434'', model = Some ''q4_K'' \<rparr>))
   \<and> CHR ''_'' \<notin> set (template_text (url \<lparr> url = Some ''http://b:11434'', model = Some ''q4_K'' \<rparr>))
   \<and> url \<lparr> url = Some ''http://a:11434'', model = Some ''q4_K'' \<rparr> = Some ''http://a:11434''
   \<and> url \<lparr> url = Some ''http://b:11434'', model = Some ''q4_K'' \<rparr> = Some ''http://b:11434''
   \<and> cacheKey \<lparr> url = Some ''http://a:11434'', model = Some ''q4_K'' \<rparr> ''q4_K''
       \<noteq> cacheKey \<lparr> url = Some ''http://b:11434'', model = Some ''q4_K'' \<rparr> ''q4_K''"
  using cacheKey_injective_without_underscore
    [where ?p1.0 = "\<lparr> url = Some ''http://a:11434'', model = Some ''q4_K'' \<rparr>"
       and ?p2.0 = "\<lparr> url = Some ''http://b:11434'', model = Some ''q4_K'' \<rparr>"
       and ?m1.0 = "''q4_K''" and ?m2.0 = "''q4_K''"
       and ?u1.0 = "''http://a:11434''" and ?u2.0 = "''http://b:11434''"]
  by (simp add: template_text_def)

text \<open>
  C3 as the specification states it does not hold: the endpoint \<open>http://h_x\<close> with
  the model \<open>y\<close> and the endpoint \<open>http://h\<close> with the model \<open>x_y\<close> differ in both
  components and have one key.
\<close>

theorem cacheKey_collision:
  "cacheKey \<lparr> url = Some ''http://h_x'', model = Some ''y'' \<rparr> ''y''
     = cacheKey \<lparr> url = Some ''http://h'', model = Some ''x_y'' \<rparr> ''x_y''
   \<and> ''http://h_x'' \<noteq> ''http://h'' \<and> ''y'' \<noteq> ''x_y''"
  by (simp add: cacheKey_def template_text_def)

subsection \<open>embed\<close>

text \<open>
  C9, as the code has it. When neither \<open>input\<close> nor the legacy \<open>text\<close> is supplied, or
  the value taken (\<open>input\<close>, or \<open>text\<close> when \<open>input\<close> is absent) is the empty string,
  \<open>embed\<close> throws \<open>Either input or text parameter must be provided\<close>, and the
  handler's state is as before: no request has gone to the backend.
\<close>

theorem embed_missing_input_fails:
  assumes "(embed_input params = None \<and> embed_text params = None)
         \<or> (embed_input params = None \<and> embed_text params = Some (Single ''''))
         \<or> embed_input params = Some (Single '''')"
  shows "embed b params st =
           (Inl (Error ''Either input or text parameter must be provided''), st)"
  using assms by (auto simp: embed_def falsy_input_def)

text \<open>C9 at the empty string as input: the log of backend requests stays empty.\<close>

theorem embed_missing_input_fails_witness:
  "embed_input \<lparr> embed_provider = localProvider ''nomic'',
                 embed_input = Some (Single ''''), embed_text = None \<rparr> = Some (Single '''')
   \<and> embed plainBackend
        \<lparr> embed_provider = localProvider ''nomic'',
          embed_input = Some (Single ''''), embed_text = None \<rparr>
        freshState
       = (Inl (Error ''Either input or text parameter must be provided''), freshState)
   \<and> calls freshState = []"
  using embed_missing_input_fails
    [of "\<lparr> embed_provider = localProvider ''nomic'',
          embed_input = Some (Single ''''), embed_text = None \<rparr>"
        plainBackend freshState]
  by (simp add: freshState_def)

text \<open>
  C9 as the specification states it does not hold for the empty list, an empty input
  value that is truthy: \<open>embed\<close> throws nothing, introspects the model and sends the
  embed request.
\<close>

theorem embed_empty_list_reaches_backend:
  "embed plainBackend
     \<lparr> embed_provider = localProvider ''nomic'',
       embed_input = Some (Many []), embed_text = None \<rparr>
     freshState
   = (Inr [],
      \<lparr> modelInfoCache =
          [''http://localhost:11434_nomic'' \<mapsto> \<lparr> contextLength = 0, lastContextLength = 2048 \<rparr>],
        calls = [ShowCall ''nomic'', EmbedCall (EmbedRequest ''nomic'' (Many []) None)] \<rparr>)"
  by (simp add: embed_defs fixture_defs)

subsection \<open>execute: the chat messages and their images\<close>

lemma lastIndexFrom_none:
  "(\<forall>i<k. xs ! i \<noteq> x) \<Longrightarrow> lastIndexFrom xs x k = - 1"
  by (induction k) simp_all

lemma lastIndexFrom_found:
  "j < k \<Longrightarrow> xs ! j = x \<Longrightarrow> (\<forall>i. j < i \<and> i < k \<longrightarrow> xs ! i \<noteq> x) \<Longrightarrow>
   lastIndexFrom xs x k = int j"
proof (induction k)
  case 0
  then show ?case by simp
next
  case (Suc k)
  show ?case
  proof (cases "j = k")
    case True
    with Suc.prems show ?thesis by simp
  next
    case False
    with Suc.prems have "j < k" by simp
    moreover from Suc.prems False have "xs ! k \<noteq> x" by simp
    ultimately show ?thesis using Suc by simp
  qed
qed

lemma lastIndexOf_absent: "x \<notin> set xs \<Longrightarrow> lastIndexOf xs x = - 1"
  unfolding lastIndexOf_def by (rule lastIndexFrom_none) (simp add: in_set_conv_nth)

lemma lastIndexOf_last_occurrence:
  assumes "x \<notin> set post"
  shows "lastIndexOf (pre @ x # post) x = int (length pre)"
  unfolding lastIndexOf_def
proof (rule lastIndexFrom_found)
  show "length pre < length (pre @ x # post)" by simp
  show "(pre @ x # post) ! length pre = x" by simp
  show "\<forall>i. length pre < i \<and> i < length (pre @ x # post) \<longrightarrow> (pre @ x # post) ! i \<noteq> x"
  proof (intro allI impI)
    fix i assume h: "length pre < i \<and> i < length (pre @ x # post)"
    then have "(pre @ x # post) ! i = post ! (i - length pre - 1)"
      by (simp add: nth_append nth_Cons')
    moreover from h have "i - length pre - 1 < length post" by auto
    ultimately show "(pre @ x # post) ! i \<noteq> x"
      using assms by (metis nth_mem)
  qed
qed

lemma attachImages_last_user:
  assumes "role m = ''user''" and "\<forall>x\<in>set post. role x \<noteq> ''user''"
  shows "attachImages (pre @ m # post) imgs = pre @ m\<lparr>images := Some imgs\<rparr> # post"
proof -
  have "''user'' \<notin> set (map role post)" using assms(2) by auto
  then have "lastIndexOf (map role pre @ ''user'' # map role post) ''user''
               = int (length (map role pre))"
    by (rule lastIndexOf_last_occurrence)
  then have "lastIndexOf (map role (pre @ m # post)) ''user'' = int (length pre)"
    using assms(1) by simp
  then show ?thesis
    by (simp add: attachImages_def)
qed

lemma attachImages_no_user:
  assumes "\<forall>x\<in>set (pre @ [m]). role x \<noteq> ''user''"
  shows "attachImages (pre @ [m]) imgs = pre @ [m\<lparr>images := Some imgs\<rparr>]"
proof -
  have "''user'' \<notin> set (map role (pre @ [m]))" using assms by auto
  then have "lastIndexOf (map role (pre @ [m])) ''user'' = - 1"
    by (rule lastIndexOf_absent)
  then show ?thesis
    by (simp add: attachImages_def)
qed

lemma attachImages_empty:
  "attachImages [] imgs = [\<lparr> role = ''user'', content = '''', images = Some imgs \<rparr>]"
  by (simp add: attachImages_def lastIndexOf_def)

lemma afterBase64_plain:
  assumes "\<forall>c\<in>set fmt. \<not> lineTerminator c" and "CHR '';'' \<notin> set fmt"
  shows "afterBase64 (fmt @ '';base64,'' @ payload) = Some payload"
  using assms by (induction fmt) auto

lemma stripDataUrl_plain:
  assumes "\<forall>c\<in>set fmt. \<not> lineTerminator c" and "CHR '';'' \<notin> set fmt"
  shows "stripDataUrl (''data:image/'' @ fmt @ '';base64,'' @ payload) = payload"
  using afterBase64_plain [OF assms] by (simp add: stripDataUrl_def)

lemma afterBase64_match:
  "afterBase64 ('';base64,'' @ r) = Some r"
  by simp

lemma afterBase64_skip:
  assumes "\<not> prefix '';base64,'' (c # cs)" and "\<not> lineTerminator c"
  shows "afterBase64 (c # cs) = afterBase64 cs"
  using assms by (simp only: afterBase64.simps if_False)

text \<open>
  Whatever the format part holds besides line terminators, the match ends at the first
  \<open>;base64,\<close>, and what follows it is returned.
\<close>

lemma afterBase64_first:
  assumes "\<forall>c\<in>set fmt. \<not> lineTerminator c"
  shows "\<exists>fmt' payload'. fmt @ '';base64,'' @ payload = fmt' @ '';base64,'' @ payload'
           \<and> afterBase64 (fmt @ '';base64,'' @ payload) = Some payload'"
  using assms
proof (induction fmt)
  case Nil
  have "[] @ '';base64,'' @ payload = [] @ '';base64,'' @ payload
        \<and> afterBase64 ([] @ '';base64,'' @ payload) = Some payload"
    by simp
  then show ?case by blast
next
  case (Cons c fmt)
  define R where "R = fmt @ '';base64,'' @ payload"
  have R: "(c # fmt) @ '';base64,'' @ payload = c # R"
    by (simp add: R_def)
  from Cons obtain fmt' payload' where
    h: "R = fmt' @ '';base64,'' @ payload'" "afterBase64 R = Some payload'"
    unfolding R_def by auto
  show ?case
  proof (cases "prefix '';base64,'' (c # R)")
    case True
    then obtain r where r: "c # R = '';base64,'' @ r"
      unfolding prefix_def by blast
    then have "afterBase64 (c # R) = Some r"
      by (simp only: afterBase64_match)
    with r have "c # R = [] @ '';base64,'' @ r \<and> afterBase64 (c # R) = Some r"
      by (simp only: append_Nil simp_thms)
    then show ?thesis unfolding R by blast
  next
    case False
    from Cons.prems have "\<not> lineTerminator c" by simp
    with False have "afterBase64 (c # R) = afterBase64 R"
      by (rule afterBase64_skip)
    with h have "c # R = (c # fmt') @ '';base64,'' @ payload'
                 \<and> afterBase64 (c # R) = Some payload'"
      by (simp only: append_Cons simp_thms)
    then show ?thesis unfolding R by blast
  qed
qed

lemma stripDataUrl_first:
  assumes "\<forall>c\<in>set fmt. \<not> lineTerminator c"
  shows "\<exists>fmt' payload'. fmt @ '';base64,'' @ payload = fmt' @ '';base64,'' @ payload'
           \<and> stripDataUrl (''data:image/'' @ fmt @ '';base64,'' @ payload) = payload'"
proof -
  from afterBase64_first [OF assms, of payload] obtain fmt' payload' where
    h: "fmt @ '';base64,'' @ payload = fmt' @ '';base64,'' @ payload'"
       "afterBase64 (fmt @ '';base64,'' @ payload) = Some payload'"
    by blast
  have "stripDataUrl (''data:image/'' @ fmt @ '';base64,'' @ payload) = payload'"
    using h(2) by (simp add: stripDataUrl_def)
  with h(1) show ?thesis by blast
qed

lemma buildChatMessages_images:
  assumes "collectMessages params = Inr (msgs, extracted)" and "extracted \<noteq> []"
  shows "buildChatMessages params = Inr (attachImages msgs (map stripDataUrl extracted))"
  using assms by (simp add: buildChatMessages_def processImages_def)

lemma foldl_pushMessage_length:
  "length (fst (foldl pushMessage acc ms)) = length (fst acc) + length ms"
  by (induction ms arbitrary: acc)
     (auto simp: pushMessage_def Let_def split: prod.splits message_content.splits)

text \<open>
  Images are only ever collected together with a message: the branch of
  \<open>attachImages\<close> for an empty \<open>chatMessages\<close> is not reached from \<open>execute\<close>.
\<close>

lemma collectMessages_images_need_message:
  assumes "collectMessages params = Inr ([], extracted)"
  shows "extracted = []"
proof (cases "params_messages params")
  case None
  with assms show ?thesis
    by (auto simp: collectMessages_def split: option.splits)
next
  case (Some ms)
  with assms have h: "foldl pushMessage ([], []) ms = ([], extracted)"
    by (simp add: collectMessages_def)
  then have "length ms = 0"
    using foldl_pushMessage_length [of "([], [])" ms] by simp
  with h show ?thesis by simp
qed

text \<open>
  C7. When a request has collected at least one image, the messages sent are
  \<open>chatMessages\<close> with every collected image, passed through the prefix-stripping
  replacement, attached by \<open>attachImages\<close>. \<open>attachImages\<close> puts the images on the
  last message whose role is \<open>user\<close>; when no message has that role, on the last
  message; when there is no message, on a new \<open>user\<close> message with empty content.
  The replacement turns \<open>data:image/<fmt>;base64,<payload>\<close> into \<open><payload>\<close> for a
  format without semicolon and line terminator; for any format without line terminator
  it removes the prefix up to the first \<open>;base64,\<close>.
\<close>

theorem images_attached_to_last_user_message:
  assumes "collectMessages params = Inr (msgs, extracted)" and "extracted \<noteq> []"
  shows "buildChatMessages params = Inr (attachImages msgs (map stripDataUrl extracted))
       \<and> (\<forall>pre m post imgs.
            role m = ''user'' \<and> (\<forall>x\<in>set post. role x \<noteq> ''user'') \<longrightarrow>
            attachImages (pre @ m # post) imgs = pre @ m\<lparr>images := Some imgs\<rparr> # post)
       \<and> (\<forall>pre m imgs.
            (\<forall>x\<in>set (pre @ [m]). role x \<noteq> ''user'') \<longrightarrow>
            attachImages (pre @ [m]) imgs = pre @ [m\<lparr>images := Some imgs\<rparr>])
       \<and> (\<forall>imgs. attachImages [] imgs
                   = [\<lparr> role = ''user'', content = '''', images = Some imgs \<rparr>])
       \<and> (\<forall>fmt payload.
            (\<forall>c\<in>set fmt. \<not> lineTerminator c) \<and> CHR '';'' \<notin> set fmt \<longrightarrow>
            stripDataUrl (''data:image/'' @ fmt @ '';base64,'' @ payload) = payload)
       \<and> (\<forall>fmt payload.
            (\<forall>c\<in>set fmt. \<not> lineTerminator c) \<longrightarrow>
            (\<exists>fmt' payload'.
               fmt @ '';base64,'' @ payload = fmt' @ '';base64,'' @ payload'
               \<and> stripDataUrl (''data:image/'' @ fmt @ '';base64,'' @ payload) = payload'))"
  using buildChatMessages_images [OF assms] attachImages_last_user attachImages_no_user
    attachImages_empty stripDataUrl_plain stripDataUrl_first
  by blast

text \<open>
  C7 at the request of the specification: one \<open>user\<close> turn with the text block \<open>hi\<close>
  and an image block gives one message with the content \<open>hi\<close> and the bare payload.
\<close>

theorem images_attached_to_last_user_message_witness:
  "collectMessages
     \<lparr> params_messages = Some [\<lparr> msg_role = ''user'',
          msg_content = Blocks [TextBlock ''hi'', ImageUrlBlock (Some ''data:image/png;base64,AAAA'')],
          msg_images = None \<rparr>],
       params_prompt = None, params_systemPrompt = None, params_images = None \<rparr>
     = Inr ([\<lparr> role = ''user'', content = ''hi'', images = None \<rparr>], [''data:image/png;base64,AAAA''])
   \<and> [''data:image/png;base64,AAAA''] \<noteq> []
   \<and> buildChatMessages
     \<lparr> params_messages = Some [\<lparr> msg_role = ''user'',
          msg_content = Blocks [TextBlock ''hi'', ImageUrlBlock (Some ''data:image/png;base64,AAAA'')],
          msg_images = None \<rparr>],
       params_prompt = None, params_systemPrompt = None, params_images = None \<rparr>
     = Inr [\<lparr> role = ''user'', content = ''hi'', images = Some [''AAAA''] \<rparr>]"
proof -
  let ?params = "\<lparr> params_messages = Some [\<lparr> msg_role = ''user'',
          msg_content = Blocks [TextBlock ''hi'', ImageUrlBlock (Some ''data:image/png;base64,AAAA'')],
          msg_images = None \<rparr>],
       params_prompt = None, params_systemPrompt = None, params_images = None \<rparr>"
  let ?m = "\<lparr> role = ''user'', content = ''hi'', images = None \<rparr>"
  have c: "collectMessages ?params = Inr ([] @ ?m # [], [''data:image/'' @ ''png'' @ '';base64,'' @ ''AAAA''])"
    by (simp add: collectMessages_def pushMessage_def nonEmptyArray_def)
  have n: "[''data:image/'' @ ''png'' @ '';base64,'' @ ''AAAA''] \<noteq> []"
    by simp
  note t = images_attached_to_last_user_message [OF c n]
  have u: "role ?m = ''user'' \<and> (\<forall>x\<in>set []. role x \<noteq> ''user'')"
    by simp
  have f: "(\<forall>c\<in>set ''png''. \<not> lineTerminator c) \<and> CHR '';'' \<notin> set ''png''"
    by (simp add: lineTerminator_def)
  from t u have "attachImages ([] @ ?m # []) [''AAAA''] = [] @ ?m\<lparr>images := Some [''AAAA'']\<rparr> # []"
    by blast
  moreover from t f have "stripDataUrl (''data:image/'' @ ''png'' @ '';base64,'' @ ''AAAA'') = ''AAAA''"
    by blast
  moreover from t have "buildChatMessages ?params
      = Inr (attachImages ([] @ ?m # [])
               (map stripDataUrl [''data:image/'' @ ''png'' @ '';base64,'' @ ''AAAA'']))"
    by blast
  ultimately have "buildChatMessages ?params
      = Inr [\<lparr> role = ''user'', content = ''hi'', images = Some [''AAAA''] \<rparr>]"
    by simp
  with c show ?thesis by simp
qed

subsection \<open>execute: the streaming loop\<close>

lemma run_append: "run (xs @ ys) s = run ys (run xs s)"
  by (simp add: run_def)

lemma run_Nil: "run [] s = s"
  by (simp add: run_def)

lemma run_Cons: "run (a # as) s = run as (step s a)"
  by (simp add: run_def)

lemma run_subscriptions:
  assumes "\<forall>x\<in>set subs. isSubscription x"
  shows "run subs s =
           s\<lparr>data_handlers := data_handlers s @ dataSubscribers subs,
             end_handlers := end_handlers s @ endSubscribers subs,
             error_handlers := error_handlers s @ errorSubscribers subs\<rparr>"
  using assms
proof (induction subs arbitrary: s)
  case Nil
  then show ?case by (simp add: run_Nil)
next
  case (Cons a subs)
  then show ?case by (cases a) (simp_all add: run_Cons isSubscription_def)
qed




text \<open>
  A failure while the iterator is being closed, after the \<open>break\<close>, is caught like any
  other.
\<close>

lemma failure_while_closing_reports:
  "invocations (run [OnError h, Abort, Chunk part, Failure e] start) = [(h, ErrorEvent e)]"
  by (simp add: run_def start_def notify_def)




text \<open>
  C8. Subscriptions, then three chunks with non-empty texts \<open>a\<close>, \<open>b\<close>, \<open>c\<close>, then the
  end of the stream, without abort. The invocations are, in this order: every data
  subscriber with \<open>(a, a)\<close>, every data subscriber with \<open>(b, ab)\<close>, every data
  subscriber with \<open>(c, abc)\<close>, every end subscriber with \<open>abc\<close>; no error subscriber
  is invoked.
\<close>

theorem three_chunks_then_end:
  assumes "\<forall>x\<in>set subs. isSubscription x"
    and "responseText pa \<noteq> ''''" and "responseText pb \<noteq> ''''" and "responseText pc \<noteq> ''''"
  shows "invocations (run (subs @ [Chunk pa, Chunk pb, Chunk pc, Exhausted]) start) =
           map (\<lambda>h. (h, DataEvent (responseText pa) (responseText pa))) (dataSubscribers subs)
         @ map (\<lambda>h. (h, DataEvent (responseText pb) (responseText pa @ responseText pb)))
             (dataSubscribers subs)
         @ map (\<lambda>h. (h, DataEvent (responseText pc)
                          (responseText pa @ responseText pb @ responseText pc)))
             (dataSubscribers subs)
         @ map (\<lambda>h. (h, EndEvent (responseText pa @ responseText pb @ responseText pc)))
             (endSubscribers subs)"
  using assms(2-4) run_subscriptions [OF assms(1), of start]
  by (simp add: run_append run_Cons run_Nil start_def notify_def Let_def)

text \<open>
  C8 at the texts \<open>a\<close>, \<open>b\<close>, \<open>c\<close> of the specification, with two data subscribers, one
  end subscriber and one error subscriber.
\<close>

theorem three_chunks_then_end_witness:
  "isSubscription (OnData 1) \<and> isSubscription (OnEnd 2) \<and> isSubscription (OnError 3)
   \<and> isSubscription (OnData 4)
   \<and> responseText (textChunk ''a'') \<noteq> '''' \<and> responseText (textChunk ''b'') \<noteq> ''''
   \<and> responseText (textChunk ''c'') \<noteq> ''''
   \<and> invocations (run ([OnData 1, OnEnd 2, OnError 3, OnData 4] @
        [Chunk (textChunk ''a''), Chunk (textChunk ''b''), Chunk (textChunk ''c''), Exhausted])
        start)
     = [(1, DataEvent ''a'' ''a''), (4, DataEvent ''a'' ''a''),
        (1, DataEvent ''b'' ''ab''), (4, DataEvent ''b'' ''ab''),
        (1, DataEvent ''c'' ''abc''), (4, DataEvent ''c'' ''abc''),
        (2, EndEvent ''abc'')]"
  using three_chunks_then_end
    [of "[OnData 1, OnEnd 2, OnError 3, OnData 4]"
        "textChunk ''a''" "textChunk ''b''" "textChunk ''c''"]
  by (simp add: isSubscription_def responseText_def textChunk_def)

text \<open>
  C10. A chunk whose message, or whose message content, is absent, or whose content is
  the empty string, changes neither the accumulated text nor the invocations, in any
  state of the execution: no data subscriber is invoked for it. So an execution can
  receive more chunks than it delivers data events: after such a chunk and a chunk with
  the text \<open>x\<close>, a data subscriber has been invoked once.
\<close>

theorem empty_chunk_is_skipped:
  assumes "message part = None
         \<or> (\<exists>m. message part = Some m
                \<and> (response_content m = None \<or> response_content m = Some ''''))"
  shows "fullText (step s (Chunk part)) = fullText s
       \<and> invocations (step s (Chunk part)) = invocations s
       \<and> invocations (run [OnData h, Chunk part, Chunk (textChunk ''x'')] start)
          = [(h, DataEvent ''x'' ''x'')]"
proof -
  from assms have "responseText part = ''''"
    by (auto simp: responseText_def)
  then show ?thesis
    by (simp add: run_def start_def notify_def responseText_def textChunk_def)
qed

text \<open>
  C10 at a chunk without message, after one data event: the text stays \<open>a\<close> and the
  single invocation stays the only one.
\<close>

theorem empty_chunk_is_skipped_witness:
  "message bareChunk = None
   \<and> fullText (step (run [OnData 1, Chunk (textChunk ''a'')] start) (Chunk bareChunk)) = ''a''
   \<and> invocations (step (run [OnData 1, Chunk (textChunk ''a'')] start) (Chunk bareChunk))
       = [(1, DataEvent ''a'' ''a'')]"
  using empty_chunk_is_skipped
    [of bareChunk "run [OnData 1, Chunk (textChunk ''a'')] start"]
  by (simp add: run_def start_def notify_def responseText_def textChunk_def bareChunk_def)

end
